theory Spec2Isabelle
  imports Complex_Main "HOL-Library.AList"
begin

section \<open>Gesture classifier (the useHandTracking hook)\<close>

text \<open>
  JavaScript numbers are modelled as mathematical reals: rounding, NaN and the infinities
  of IEEE doubles are outside the model. A landmark, a cursor position and a
  THREE.Vector3 are all objects with the numeric fields x, y and z.
\<close>

record point =
  px :: real
  py :: real
  pz :: real

record point2 =
  qx :: real
  qy :: real

type_synonym hand = "point list"

datatype error = TypeError

text \<open>The hook's React state (first six fields) and its refs (last three).\<close>

record tracker =
  handPosition :: point
  isPinching :: bool
  isFist :: bool
  isTracking :: bool
  handVelocity :: point2
  handSize :: real
  lastPositionRef :: point
  prevPositionRef :: point2
  lastHandSizeRef :: real

definition initialTracker :: tracker where
  "initialTracker =
     \<lparr>handPosition = \<lparr>px = 0.5, py = 0.5, pz = 0.5\<rparr>,
      isPinching = False, isFist = False, isTracking = False,
      handVelocity = \<lparr>qx = 0, qy = 0\<rparr>,
      handSize = 0.25,
      lastPositionRef = \<lparr>px = 0.5, py = 0.5, pz = 0.5\<rparr>,
      prevPositionRef = \<lparr>qx = 0.5, qy = 0.5\<rparr>,
      lastHandSizeRef = 0.25\<rparr>"

definition LERP_FACTOR :: real where "LERP_FACTOR = 0.35"
definition LERP_FACTOR_DEPTH :: real where "LERP_FACTOR_DEPTH = 0.2"
definition PINCH_THRESHOLD :: real where "PINCH_THRESHOLD = 0.08"
definition MIN_HAND_SIZE :: real where "MIN_HAND_SIZE = 0.10"
definition MAX_HAND_SIZE :: real where "MAX_HAND_SIZE = 0.40"

definition lerp :: "real \<Rightarrow> real \<Rightarrow> real \<Rightarrow> real" where
  "lerp current target factor = current + (target - current) * factor"

definition distance3D :: "point \<Rightarrow> point \<Rightarrow> real" where
  "distance3D p1 p2 = sqrt ((px p1 - px p2)\<^sup>2 + (py p1 - py p2)\<^sup>2 + (pz p1 - pz p2)\<^sup>2)"

definition distance2D :: "point \<Rightarrow> point \<Rightarrow> real" where
  "distance2D p1 p2 = sqrt ((px p1 - px p2)\<^sup>2 + (py p1 - py p2)\<^sup>2)"

text \<open>Math.min and Math.max spread over a non-empty array, given as head and rest.\<close>

definition Math_min :: "real \<Rightarrow> real list \<Rightarrow> real" where
  "Math_min v vs = fold min vs v"

definition Math_max :: "real \<Rightarrow> real list \<Rightarrow> real" where
  "Math_max v vs = fold max vs v"

text \<open>calculateHandDepth returns the object {depth, size}, here the pair (depth, size).\<close>

definition calculateHandDepth :: "hand \<Rightarrow> real \<times> real" where
  "calculateHandDepth hand =
     (let wrist = hand ! 0;
          middleTip = hand ! 12;
          handLength = distance2D wrist middleTip;
          indexMCP = hand ! 5;
          pinkyMCP = hand ! 17;
          palmWidth = distance2D indexMCP pinkyMCP;
          indexTip = hand ! 8;
          pinkyTip = hand ! 20;
          thumbTip = hand ! 4;
          xs = map px [middleTip, indexTip, pinkyTip, thumbTip];
          ys = map py [middleTip, indexTip, pinkyTip, thumbTip];
          minX = Math_min (px wrist) xs;
          maxX = Math_max (px wrist) xs;
          minY = Math_min (py wrist) ys;
          maxY = Math_max (py wrist) ys;
          diagonal = sqrt ((maxX - minX)\<^sup>2 + (maxY - minY)\<^sup>2);
          combinedSize = (palmWidth * 2.5 + handLength * 0.8 + diagonal * 0.5) / 3;
          normalizedDepth =
            1 - min 1 (max 0 ((combinedSize - MIN_HAND_SIZE) / (MAX_HAND_SIZE - MIN_HAND_SIZE)))
      in (normalizedDepth, combinedSize))"

definition calculatePinchDepthAdjustment :: "hand \<Rightarrow> real" where
  "calculatePinchDepthAdjustment hand =
     (let thumbTip = hand ! 4;
          indexTip = hand ! 8;
          pinchDist = distance2D thumbTip indexTip;
          MIN_PINCH = 0.02;
          MAX_PINCH = 0.10
      in min 1 (max 0 ((pinchDist - MIN_PINCH) / (MAX_PINCH - MIN_PINCH))))"

definition checkFist :: "hand \<Rightarrow> bool" where
  "checkFist hand =
     (let indexTip = hand ! 8;
          middleTip = hand ! 12;
          ringTip = hand ! 16;
          pinkyTip = hand ! 20;
          indexPIP = hand ! 6;
          middlePIP = hand ! 10;
          ringPIP = hand ! 14;
          pinkyPIP = hand ! 18;
          palmCenter = hand ! 9;
          indexCurled = (py indexTip > py indexPIP - 0.02);
          middleCurled = (py middleTip > py middlePIP - 0.02);
          ringCurled = (py ringTip > py ringPIP - 0.02);
          pinkyCurled = (py pinkyTip > py pinkyPIP - 0.02);
          indexToPalm = distance3D indexTip palmCenter;
          middleToPalm = distance3D middleTip palmCenter;
          ringToPalm = distance3D ringTip palmCenter;
          pinkyToPalm = distance3D pinkyTip palmCenter;
          tipsCloseToPalm =
            (indexToPalm < 0.15 \<and> middleToPalm < 0.12 \<and> ringToPalm < 0.15 \<and> pinkyToPalm < 0.18);
          tipsSpread = distance3D indexTip pinkyTip;
          tipsCompact = (tipsSpread < 0.15);
          curledCount =
            length (filter (\<lambda>b. b) [indexCurled, middleCurled, ringCurled, pinkyCurled])
      in curledCount \<ge> 3 \<and> (tipsCloseToPalm \<or> tipsCompact))"

definition expandRange :: "real \<Rightarrow> real \<Rightarrow> real \<Rightarrow> real" where
  "expandRange v center expansion =
     (let offset = v - center;
          expanded = center + (offset * expansion)
      in max 0 (min 1 expanded))"

text \<open>
  The values processLandmarks derives from one hand before smoothing: the two gesture flags
  and the three smoothing targets.
\<close>

definition isFistGesture :: "hand \<Rightarrow> bool" where
  "isFistGesture hand = checkFist hand"

definition isPinch :: "hand \<Rightarrow> bool" where
  "isPinch hand =
     (let thumbTip = hand ! 4;
          indexTip = hand ! 8;
          pinchDistance = distance3D thumbTip indexTip
      in \<not> isFistGesture hand \<and> pinchDistance < PINCH_THRESHOLD)"

definition finalDepth :: "hand \<Rightarrow> real" where
  "finalDepth hand =
     (let baseDepth = fst (calculateHandDepth hand)
      in if isPinch hand
         then baseDepth * 0.7 + calculatePinchDepthAdjustment hand * 0.3
         else baseDepth)"

definition targetX :: "hand \<Rightarrow> real" where
  "targetX hand =
     (if isPinch hand then (px (hand ! 4) + px (hand ! 8)) / 2 else px (hand ! 9))"

definition targetY :: "hand \<Rightarrow> real" where
  "targetY hand =
     (if isPinch hand then (py (hand ! 4) + py (hand ! 8)) / 2 else py (hand ! 9))"

definition expandedX :: "hand \<Rightarrow> real" where
  "expandedX hand = expandRange (1 - targetX hand) 0.5 1.5"

definition expandedY :: "hand \<Rightarrow> real" where
  "expandedY hand = expandRange (1 - targetY hand) 0.5 1.5"

text \<open>
  processLandmarks. An empty detection clears the flags and the velocity and leaves the
  position alone. Every landmark index the body reads is at most 20, so a hand with fewer
  than 21 points makes a property read on undefined throw a TypeError (inside checkFist,
  after setIsTracking(true) has run).
\<close>

definition processLandmarks :: "tracker \<Rightarrow> hand list \<Rightarrow> error + tracker" where
  "processLandmarks st landmarks =
     (case landmarks of
        [] \<Rightarrow>
          Inr (st\<lparr>isTracking := False, isPinching := False, isFist := False,
                  handVelocity := \<lparr>qx = 0, qy = 0\<rparr>\<rparr>)
      | hand # _ \<Rightarrow>
          if length hand < 21 then Inl TypeError
          else
            let currentHandSize = snd (calculateHandDepth hand);
                newHandSize = lerp (lastHandSizeRef st) currentHandSize 0.1;
                smoothedPosition =
                  \<lparr>px = lerp (px (lastPositionRef st)) (expandedX hand) LERP_FACTOR,
                   py = lerp (py (lastPositionRef st)) (expandedY hand) LERP_FACTOR,
                   pz = lerp (pz (lastPositionRef st)) (finalDepth hand) LERP_FACTOR_DEPTH\<rparr>;
                vel =
                  \<lparr>qx = (px smoothedPosition - qx (prevPositionRef st)) * 20,
                   qy = (py smoothedPosition - qy (prevPositionRef st)) * 20\<rparr>
            in Inr (st\<lparr>isTracking := True,
                       isFist := isFistGesture hand,
                       isPinching := isPinch hand,
                       lastHandSizeRef := newHandSize,
                       handSize := newHandSize,
                       handVelocity :=
                         \<lparr>qx = lerp (qx (handVelocity st)) (qx vel) 0.5,
                          qy = lerp (qy (handVelocity st)) (qy vel) 0.5\<rparr>,
                       prevPositionRef := \<lparr>qx = px smoothedPosition, qy = py smoothedPosition\<rparr>,
                       lastPositionRef := smoothedPosition,
                       handPosition := smoothedPosition\<rparr>))"

text \<open>
  One tick of runDetection once the video is ready: processLandmarks runs inside
  try/catch, so a TypeError is swallowed and only the update made before it survives.
\<close>

definition runDetection :: "tracker \<Rightarrow> hand list \<Rightarrow> tracker" where
  "runDetection st landmarks =
     (case processLandmarks st landmarks of
        Inl _ \<Rightarrow> st\<lparr>isTracking := True\<rparr>
      | Inr st' \<Rightarrow> st')"

text \<open>The cursor the hook emits after a sequence of detector ticks.\<close>

definition runTicks :: "hand list list \<Rightarrow> tracker" where
  "runTicks ticks = foldl runDetection initialTracker ticks"

section \<open>Candidate finder (getClosestOrbForHand in SpaceScene)\<close>

type_synonym orb_id = string

text \<open>An entry of the orbs array of App. Optional numeric fields are read with "|| default".\<close>

record orb =
  orbId :: orb_id
  active :: bool
  position :: point
  planetSize :: "real option"
  orbitRadius :: "real option"
  orbitSpeed :: "real option"
  orbitOffset :: "real option"
  tiltAngle :: "real option"

text \<open>The JavaScript "v || d" on an optional number: undefined and 0 are falsy.\<close>

definition orDefault :: "real option \<Rightarrow> real \<Rightarrow> real" where
  "orDefault v d = (case v of None \<Rightarrow> d | Some r \<Rightarrow> if r = 0 then d else r)"

text \<open>
  The three.js camera is a parameter: its projection to normalised device coordinates,
  its position, and the intersection of the ray through a screen point with the orbital
  plane Y = 0 (Raycaster.setFromCamera followed by Ray.intersectPlane).
\<close>

record camera =
  project :: "point \<Rightarrow> point"
  cameraPosition :: point
  raycastOrbitalPlane :: "real \<Rightarrow> real \<Rightarrow> point"

definition distanceTo :: "point \<Rightarrow> point \<Rightarrow> real" where
  "distanceTo a b = sqrt ((px a - px b)\<^sup>2 + (py a - py b)\<^sup>2 + (pz a - pz b)\<^sup>2)"

text \<open>visualPos || new THREE.Vector3(...orb.position)\<close>

definition orbPosOf :: "(orb_id \<rightharpoonup> point) \<Rightarrow> orb \<Rightarrow> point" where
  "orbPosOf orbVisualPositions orb =
     (case orbVisualPositions (orbId orb) of Some visualPos \<Rightarrow> visualPos | None \<Rightarrow> position orb)"

text \<open>The screen distance between the cursor and a projected orb, computed alike in both users.\<close>

definition screenDistTo :: "camera \<Rightarrow> point \<Rightarrow> point \<Rightarrow> real" where
  "screenDistTo cam handPos orbPos =
     (let projected = project cam orbPos;
          screenX = (px projected + 1) / 2;
          screenY = (py projected + 1) / 2;
          dx = px handPos - screenX;
          dy = py handPos - screenY
      in sqrt (dx * dx + dy * dy))"

definition cappedThreshold :: "orb \<Rightarrow> real" where
  "cappedThreshold orb =
     (let planetSize = orDefault (planetSize orb) 0.5;
          baseThreshold = 0.20;
          sizeBonus = planetSize * 0.10
      in min 0.35 (baseThreshold + sizeBonus))"

definition selectionThreshold :: "orb \<Rightarrow> real \<Rightarrow> real" where
  "selectionThreshold orb distFromCamera =
     (let distanceFactor = max 0.5 (20 / distFromCamera)
      in cappedThreshold orb * distanceFactor)"

text \<open>
  The test "screenDist >= selectionThreshold". At distFromCamera = 0 the quotient
  20 / 0 is Infinity in JavaScript, so the threshold is Infinity (never skipped), NaN
  (capped part 0, never skipped) or -Infinity (capped part negative, always skipped).
\<close>

definition outsideThreshold :: "orb \<Rightarrow> real \<Rightarrow> real \<Rightarrow> bool" where
  "outsideThreshold orb screenDist distFromCamera =
     (if distFromCamera = 0 then cappedThreshold orb < 0
      else screenDist \<ge> selectionThreshold orb distFromCamera)"

text \<open>
  The body of orbs.forEach: the accumulator is (closest, minScore), with minScore = None
  for the initial Infinity.
\<close>

definition considerOrb ::
  "camera \<Rightarrow> (orb_id \<rightharpoonup> point) \<Rightarrow> point \<Rightarrow> orb_id list \<Rightarrow> orb
     \<Rightarrow> orb_id option \<times> real option \<Rightarrow> orb_id option \<times> real option" where
  "considerOrb cam orbVisualPositions handPos excludeOrbIds orb acc =
     (if \<not> active orb then acc
      else if orbId orb \<in> set excludeOrbIds then acc
      else
        let orbPos = orbPosOf orbVisualPositions orb;
            projected = project cam orbPos
        in if pz projected > 1 \<or> pz projected < - 1 then acc
           else
             let screenDist = screenDistTo cam handPos orbPos;
                 distFromCamera = distanceTo orbPos (cameraPosition cam)
             in if outsideThreshold orb screenDist distFromCamera then acc
                else
                  let depthPenalty = distFromCamera / 50;
                      score = screenDist + depthPenalty
                  in if (case snd acc of None \<Rightarrow> True | Some minScore \<Rightarrow> score < minScore)
                     then (Some (orbId orb), Some score)
                     else acc)"

definition getClosestOrbForHand ::
  "camera \<Rightarrow> (orb_id \<rightharpoonup> point) \<Rightarrow> orb list \<Rightarrow> point \<Rightarrow> orb_id list \<Rightarrow> orb_id option" where
  "getClosestOrbForHand cam orbVisualPositions orbs handPos excludeOrbIds =
     fst (fold (considerOrb cam orbVisualPositions handPos excludeOrbIds) orbs (None, None))"

section \<open>Grab bookkeeping of App\<close>

text \<open>
  grabbedOrbs is the object {playerId: orbId}, held as the list of its entries in the order
  Object.entries and Object.values give them. A JavaScript object lists its array-index
  keys first (canonical decimal strings of the integers up to 2^32 - 2), in ascending
  numeric order, and then its other string keys in insertion order. That order decides the
  legacy grabbedOrbId, the value of the first entry.
\<close>

type_synonym grabbed = "(string \<times> orb_id) list"

definition isDigit :: "char \<Rightarrow> bool" where
  "isDigit c \<longleftrightarrow> 48 \<le> (of_char c :: nat) \<and> (of_char c :: nat) \<le> 57"

definition decimalValue :: "string \<Rightarrow> nat" where
  "decimalValue s = foldl (\<lambda>acc c. acc * 10 + ((of_char c :: nat) - 48)) 0 s"

definition arrayIndex :: "string \<Rightarrow> nat option" where
  "arrayIndex s =
     (case s of
        [] \<Rightarrow> None
      | c # cs \<Rightarrow>
          if list_all isDigit s \<and> (c \<noteq> CHR ''0'' \<or> cs = []) \<and> decimalValue s \<le> 4294967294
          then Some (decimalValue s) else None)"

text \<open>A new array-index key goes before the first entry that is not a smaller index.\<close>

fun insertIndexed :: "nat \<Rightarrow> string \<Rightarrow> orb_id \<Rightarrow> grabbed \<Rightarrow> grabbed" where
  "insertIndexed n k v [] = [(k, v)]"
| "insertIndexed n k v (e # es) =
     (case arrayIndex (fst e) of
        Some m \<Rightarrow> if m < n then e # insertIndexed n k v es else (k, v) # e # es
      | None \<Rightarrow> (k, v) # e # es)"

text \<open>
  Setting a property: a key already present keeps its place, a new string key goes last,
  a new array-index key goes to its numeric place.
\<close>

definition Object_set :: "string \<Rightarrow> orb_id \<Rightarrow> grabbed \<Rightarrow> grabbed" where
  "Object_set k v obj =
     (case arrayIndex k of
        None \<Rightarrow> AList.update k v obj
      | Some n \<Rightarrow> if k \<in> fst ` set obj then AList.update k v obj else insertIndexed n k v obj)"

definition Object_values :: "grabbed \<Rightarrow> orb_id list" where
  "Object_values g = map snd g"

definition grabbedOrbId :: "grabbed \<Rightarrow> orb_id option" where
  "grabbedOrbId g = (case g of [] \<Rightarrow> None | e # _ \<Rightarrow> Some (snd e))"

definition setGrabbedOrbId :: "orb_id option \<Rightarrow> string \<Rightarrow> grabbed \<Rightarrow> grabbed" where
  "setGrabbedOrbId orbId' playerId prev =
     (case orbId' of
        None \<Rightarrow> AList.delete playerId prev
      | Some v \<Rightarrow> Object_set playerId v prev)"

definition updateOrbPosition :: "orb_id \<Rightarrow> point \<Rightarrow> orb list \<Rightarrow> orb list" where
  "updateOrbPosition orbId' newPosition prev =
     map (\<lambda>orb. if orbId orb = orbId' then orb\<lparr>position := newPosition\<rparr> else orb) prev"

section \<open>Lock system (the second useFrame of SpaceScene)\<close>

datatype camera_mode = ModeIdle | ModeDragging | ModeCamera

text \<open>The props of SpaceScene that the lock system and the orbs read.\<close>

record props =
  orbs :: "orb list"
  grabbedOrbs :: grabbed
  isTracking_prop :: bool
  isPinching_prop :: bool
  handPosition_prop :: point
  cameraMode :: camera_mode
  sceneCamera :: camera

record lockRefs =
  lockedOrbRef :: "orb_id option"
  lockCandidateRef :: "orb_id option"
  lockStartTimeRef :: real
  closestOrbRef :: "orb_id option"


text \<open>Truthiness of an id or null: null and the empty string are falsy.\<close>

definition truthy :: "orb_id option \<Rightarrow> bool" where
  "truthy v = (case v of None \<Rightarrow> False | Some s \<Rightarrow> s \<noteq> [])"



text \<open>A run of frames, each with its own props, registered positions and clock reading.\<close>

type_synonym lock_input = "props \<times> (orb_id \<rightharpoonup> point) \<times> real"




section \<open>Orbital motion (the useFrame of SoundOrb)\<close>

record orbRefs =
  orbitAngleRef :: real
  targetOrbitAngleRef :: real
  currentOrbitRadius :: real
  targetOrbitRadius :: real
  currentPosition :: point
  targetPosition :: point
  grabStartAngleOffset :: real
  wasGrabbed :: bool

definition initialOrbRefs :: "orb \<Rightarrow> orbRefs" where
  "initialOrbRefs orb =
     \<lparr>orbitAngleRef = orDefault (orbitOffset orb) 0,
      targetOrbitAngleRef = orDefault (orbitOffset orb) 0,
      currentOrbitRadius = orDefault (orbitRadius orb) 5,
      targetOrbitRadius = orDefault (orbitRadius orb) 5,
      currentPosition = position orb,
      targetPosition = position orb,
      grabStartAngleOffset = 0,
      wasGrabbed = False\<rparr>"

definition MIN_ORBIT_RADIUS :: real where "MIN_ORBIT_RADIUS = 2.0"
definition MAX_ORBIT_RADIUS :: real where "MAX_ORBIT_RADIUS = 12"

text \<open>Math.atan2(y, x) is the argument of x + iy, in the interval from -pi to pi.\<close>

definition Math_atan2 :: "real \<Rightarrow> real \<Rightarrow> real" where
  "Math_atan2 y' x' = Arg (Complex x' y')"

definition Math_pow :: "real \<Rightarrow> real \<Rightarrow> real" where
  "Math_pow b e = b powr e"

text \<open>The two while loops of lerpAngle, each a recursive function of the running diff.\<close>

function wrapDown :: "real \<Rightarrow> real" where
  "wrapDown diff = (if diff > pi then wrapDown (diff - pi * 2) else diff)"
  by pat_completeness auto
termination
proof (relation "measure (\<lambda>d. nat \<lceil>d / (2 * pi)\<rceil>)")
  show "wf (measure (\<lambda>d. nat \<lceil>d / (2 * pi)\<rceil>))" by simp
next
  fix diff :: real
  assume h: "pi < diff"
  have e: "(diff - pi * 2) / (2 * pi) = diff / (2 * pi) - 1"
    by (simp add: field_simps)
  have "0 < diff" using h pi_gt_zero by (rule less_trans[rotated])
  then have "0 < diff / (2 * pi)" by simp
  then have "1 \<le> \<lceil>diff / (2 * pi)\<rceil>" by linarith
  moreover have "\<lceil>(diff - pi * 2) / (2 * pi)\<rceil> = \<lceil>diff / (2 * pi)\<rceil> - 1"
    unfolding e by (rule ceiling_diff_one)
  ultimately show "(diff - pi * 2, diff) \<in> measure (\<lambda>d. nat \<lceil>d / (2 * pi)\<rceil>)"
    unfolding in_measure by linarith
qed

function wrapUp :: "real \<Rightarrow> real" where
  "wrapUp diff = (if diff < - pi then wrapUp (diff + pi * 2) else diff)"
  by pat_completeness auto
termination
proof (relation "measure (\<lambda>d. nat \<lceil>- d / (2 * pi)\<rceil>)")
  show "wf (measure (\<lambda>d. nat \<lceil>- d / (2 * pi)\<rceil>))" by simp
next
  fix diff :: real
  assume h: "diff < - pi"
  have e: "- (diff + pi * 2) / (2 * pi) = - diff / (2 * pi) - 1"
    by (simp add: field_simps)
  have "diff < 0" using h pi_gt_zero by linarith
  then have "0 < - diff / (2 * pi)" by (simp add: divide_neg_pos)
  then have "1 \<le> \<lceil>- diff / (2 * pi)\<rceil>" by linarith
  moreover have "\<lceil>- (diff + pi * 2) / (2 * pi)\<rceil> = \<lceil>- diff / (2 * pi)\<rceil> - 1"
    unfolding e by (rule ceiling_diff_one)
  ultimately show "(diff + pi * 2, diff) \<in> measure (\<lambda>d. nat \<lceil>- d / (2 * pi)\<rceil>)"
    unfolding in_measure by linarith
qed

declare wrapDown.simps [simp del] wrapUp.simps [simp del]

text \<open>The angle delta lerpAngle scales: target - current after both loops.\<close>

definition normalizedDiff :: "real \<Rightarrow> real \<Rightarrow> real" where
  "normalizedDiff current target = wrapUp (wrapDown (target - current))"

definition lerpAngle :: "real \<Rightarrow> real \<Rightarrow> real \<Rightarrow> real" where
  "lerpAngle current target t = current + normalizedDiff current target * t"

text \<open>Vector3.lerp\<close>

definition lerpPoint :: "point \<Rightarrow> point \<Rightarrow> real \<Rightarrow> point" where
  "lerpPoint c v alpha =
     \<lparr>px = px c + (px v - px c) * alpha,
      py = py c + (py v - py c) * alpha,
      pz = pz c + (pz v - pz c) * alpha\<rparr>"

definition updatePlanetPosition :: "bool \<Rightarrow> orb \<Rightarrow> real \<Rightarrow> orbRefs \<Rightarrow> orbRefs" where
  "updatePlanetPosition isGrabbed orb delta refs =
     (let radiusLerpSpeed = (if isGrabbed then 0.12 else 0.08);
          radius =
            currentOrbitRadius refs
              + (targetOrbitRadius refs - currentOrbitRadius refs) * radiusLerpSpeed;
          targetAngle =
            (if \<not> isGrabbed then
               (let orbitSpeed' = orDefault (orbitSpeed orb) 1;
                    speedMultiplier = Math_pow (5 / radius) 0.5
                in targetOrbitAngleRef refs + orbitSpeed' * speedMultiplier * delta * 0.3)
             else targetOrbitAngleRef refs);
          angleLerpSpeed = (if isGrabbed then 0.2 else 0.15);
          angle = lerpAngle (orbitAngleRef refs) targetAngle angleLerpSpeed;
          tilt = orDefault (tiltAngle orb) 0;
          newTarget =
            \<lparr>px = cos angle * radius,
             py = sin tilt * sin angle * radius * 0.1,
             pz = sin angle * radius\<rparr>;
          posLerpSpeed = (if isGrabbed then 0.25 else 0.1)
      in refs\<lparr>currentOrbitRadius := radius,
               targetOrbitAngleRef := targetAngle,
               orbitAngleRef := angle,
               targetPosition := newTarget,
               currentPosition := lerpPoint (currentPosition refs) newTarget posLerpSpeed\<rparr>)"

text \<open>
  The source holds two versions of SoundOrb. The earlier one maps the cursor depth to the
  target radius and keeps the angular offset taken at grab time; it sits in a file with
  unresolved merge markers and its render body reads an undeclared isClosest, so only its
  callback is modelled. The later one, the component that runs, raycasts the cursor onto
  the orbital plane and clamps the hit distance.
\<close>

datatype variant = DepthMapped | Raycast

definition depthTargetRadius :: "real \<Rightarrow> real" where
  "depthTargetRadius z' = MIN_ORBIT_RADIUS + z' * (MAX_ORBIT_RADIUS - MIN_ORBIT_RADIUS)"

definition clampedRadius :: "real \<Rightarrow> real" where
  "clampedRadius targetDist = max MIN_ORBIT_RADIUS (min MAX_ORBIT_RADIUS targetDist)"

definition grabbedTargets :: "variant \<Rightarrow> props \<Rightarrow> orbRefs \<Rightarrow> orbRefs" where
  "grabbedTargets v p refs =
     (let ndcX = (px (handPosition_prop p) - 0.5) * 2;
          ndcY = (py (handPosition_prop p) - 0.5) * 2
      in case v of
           DepthMapped \<Rightarrow>
             (let targetRadius = depthTargetRadius (pz (handPosition_prop p));
                  cursorAngle = Math_atan2 ndcY ndcX
              in refs\<lparr>targetOrbitRadius := targetRadius,
                       targetOrbitAngleRef := cursorAngle + grabStartAngleOffset refs\<rparr>)
         | Raycast \<Rightarrow>
             (let targetPoint = raycastOrbitalPlane (sceneCamera p) ndcX ndcY;
                  targetAngle = Math_atan2 (pz targetPoint) (px targetPoint);
                  targetDist =
                    sqrt (px targetPoint * px targetPoint + pz targetPoint * pz targetPoint)
              in refs\<lparr>targetOrbitRadius := clampedRadius targetDist,
                       targetOrbitAngleRef := targetAngle\<rparr>))"

text \<open>The calls a frame makes on its callback props.\<close>

datatype call =
    SetGrabbedOrbId "orb_id option" string
  | UpdateOrbPosition orb_id point
  | RegisterOrbPosition orb_id point

text \<open>The block "Grab detection - ONLY if locked": grab on pinch, release on un-pinch.\<close>

definition grabDetection ::
  "variant \<Rightarrow> props \<Rightarrow> lockRefs \<Rightarrow> orb \<Rightarrow> string \<Rightarrow> orbRefs \<Rightarrow> orbRefs \<times> call list" where
  "grabDetection v p lk orb playerId refs =
     (let isGrabbed = (grabbedOrbId (grabbedOrbs p) = Some (orbId orb));
          isLocked = (lockedOrbRef lk = Some (orbId orb));
          canGrab = (isLocked \<or> isGrabbed)
      in if isTracking_prop p \<and> active orb then
           (let grab = (isPinching_prop p \<and> canGrab \<and> \<not> isGrabbed);
                refs1 =
                  (if grab then
                     (case v of
                        DepthMapped \<Rightarrow>
                          (let ndcX = (px (handPosition_prop p) - 0.5) * 2;
                               ndcY = (py (handPosition_prop p) - 0.5) * 2;
                               cursorAngle = Math_atan2 ndcY ndcX
                           in refs\<lparr>grabStartAngleOffset := orbitAngleRef refs - cursorAngle,
                                    targetOrbitRadius := currentOrbitRadius refs,
                                    wasGrabbed := True\<rparr>)
                      | Raycast \<Rightarrow> refs\<lparr>wasGrabbed := True\<rparr>)
                   else refs);
                calls1 = (if grab then [SetGrabbedOrbId (Some (orbId orb)) playerId] else []);
                release = (\<not> isPinching_prop p \<and> isGrabbed);
                refs2 = (if release then refs1\<lparr>wasGrabbed := False\<rparr> else refs1);
                calls2 =
                  (if release
                   then [SetGrabbedOrbId None playerId,
                         UpdateOrbPosition (orbId orb) (currentPosition refs1)]
                   else [])
            in (refs2, calls1 @ calls2))
         else (refs, []))"

text \<open>
  One run of the SoundOrb callback; meshReady stands for meshRef.current being set. The
  purely visual updatePlanetVisuals is left out.
\<close>

definition soundOrbFrame ::
  "variant \<Rightarrow> props \<Rightarrow> lockRefs \<Rightarrow> orb \<Rightarrow> string \<Rightarrow> bool \<Rightarrow> real \<Rightarrow> orbRefs
     \<Rightarrow> orbRefs \<times> call list" where
  "soundOrbFrame v p lk orb playerId meshReady delta refs =
     (let isGrabbed = (grabbedOrbId (grabbedOrbs p) = Some (orbId orb))
      in if \<not> meshReady then (refs, [])
         else if cameraMode p = ModeCamera then
           (updatePlanetPosition isGrabbed orb delta refs, [])
         else
           let detected = grabDetection v p lk orb playerId refs;
               refs1 = fst detected;
               refs2 = (if isGrabbed then grabbedTargets v p refs1 else refs1);
               refs3 = updatePlanetPosition isGrabbed orb delta refs2
           in (refs3, snd detected @ [RegisterOrbPosition (orbId orb) (currentPosition refs3)]))"

section \<open>The scene as a whole\<close>

text \<open>
  The state the callbacks act on through their calls: the orbs and the grabbed map of App,
  and the registry of visual positions of SpaceScene.
\<close>

record world =
  worldOrbs :: "orb list"
  worldGrabbed :: grabbed
  worldVisual :: "orb_id \<rightharpoonup> point"

definition applyCall :: "call \<Rightarrow> world \<Rightarrow> world" where
  "applyCall c w =
     (case c of
        SetGrabbedOrbId v playerId \<Rightarrow> w\<lparr>worldGrabbed := setGrabbedOrbId v playerId (worldGrabbed w)\<rparr>
      | UpdateOrbPosition i newPosition \<Rightarrow> w\<lparr>worldOrbs := updateOrbPosition i newPosition (worldOrbs w)\<rparr>
      | RegisterOrbPosition i pos \<Rightarrow> w\<lparr>worldVisual := (worldVisual w)(i \<mapsto> pos)\<rparr>)"

definition applyCalls :: "call list \<Rightarrow> world \<Rightarrow> world" where
  "applyCalls cs w = fold applyCall cs w"

text \<open>
  SpaceScene renders every SoundOrb with playerId = 'player_0'. An orb frame is described
  by everything the callback reads; the props may lag behind the world, as React applies
  state updates only at the next render.
\<close>

type_synonym orb_frame = "variant \<times> props \<times> lockRefs \<times> orb \<times> bool \<times> real \<times> orbRefs"

definition sceneOrbCalls :: "orb_frame \<Rightarrow> call list" where
  "sceneOrbCalls f =
     (case f of (v, p, lk, orb, meshReady, delta, refs) \<Rightarrow>
        snd (soundOrbFrame v p lk orb ''player_0'' meshReady delta refs))"

definition runOrbFrames :: "orb_frame list \<Rightarrow> world \<Rightarrow> world" where
  "runOrbFrames frames w = fold (\<lambda>f. applyCalls (sceneOrbCalls f)) frames w"

section \<open>Specification vocabulary and example inputs\<close>

text \<open>A hand whose 21 landmarks all coincide: a degenerate closed fist.\<close>

definition pointHand :: "real \<Rightarrow> real \<Rightarrow> real \<Rightarrow> hand" where
  "pointHand a b c = replicate 21 \<lparr>px = a, py = b, pz = c\<rparr>"

definition unitPoint :: "point \<Rightarrow> bool" where
  "unitPoint p \<longleftrightarrow> 0 \<le> px p \<and> px p \<le> 1 \<and> 0 \<le> py p \<and> py p \<le> 1 \<and> 0 \<le> pz p \<and> pz p \<le> 1"

text \<open>
  The four non-thumb fingers as (tip index, middle-joint index, maximum distance of the tip
  from the palm reference, landmark 9), and the two per-finger conditions of the
  specification: (a) curled, (b) near the palm.
\<close>

definition fingers :: "(nat \<times> nat \<times> real) list" where
  "fingers = [(8, 6, 0.15), (12, 10, 0.12), (16, 14, 0.15), (20, 18, 0.18)]"

definition fingerCurled :: "hand \<Rightarrow> nat \<times> nat \<times> real \<Rightarrow> bool" where
  "fingerCurled hand f = (case f of (tip, pip, d) \<Rightarrow> py (hand ! tip) > py (hand ! pip) - 0.02)"

definition fingerNearPalm :: "hand \<Rightarrow> nat \<times> nat \<times> real \<Rightarrow> bool" where
  "fingerNearPalm hand f = (case f of (tip, pip, d) \<Rightarrow> distance3D (hand ! tip) (hand ! 9) < d)"

text \<open>The fist rule in the specification's words: 3 of 4 fingers meet both (a) and (b).\<close>

definition fistBySpec :: "hand \<Rightarrow> bool" where
  "fistBySpec hand =
     (3 \<le> length (filter (\<lambda>f. fingerCurled hand f \<and> fingerNearPalm hand f) fingers))"

text \<open>Three fingers folded onto the palm, the index finger stretched out.\<close>

definition indexOutHand :: hand where
  "indexOutHand = (pointHand 0.5 0.5 0)[8 := \<lparr>px = 0.5, py = 0.2, pz = 0\<rparr>]"

text \<open>All landmarks bunched together 0.3 below the palm reference point.\<close>

definition bunchedHand :: hand where
  "bunchedHand = (pointHand 0.5 0.8 0)[9 := \<lparr>px = 0.5, py = 0.5, pz = 0\<rparr>]"

text \<open>An open hand whose thumb tip touches the index tip: a pinch.\<close>

definition pinchHand :: hand where
  "pinchHand =
     (pointHand 0.5 0.5 0)[4 := \<lparr>px = 0.5, py = 0.2, pz = 0\<rparr>,
                           8 := \<lparr>px = 0.5, py = 0.2, pz = 0\<rparr>,
                           12 := \<lparr>px = 0.5, py = 0.2, pz = 0\<rparr>,
                           16 := \<lparr>px = 0.5, py = 0.2, pz = 0\<rparr>,
                           20 := \<lparr>px = 0.5, py = 0.2, pz = 0\<rparr>]"

text \<open>
  Three fingers folded onto the palm, the index finger stretched out and the thumb tip on
  the index tip.
\<close>

definition indexPinchHand :: hand where
  "indexPinchHand =
     (pointHand 0.5 0.5 0)[4 := \<lparr>px = 0.5, py = 0.2, pz = 0\<rparr>,
                           8 := \<lparr>px = 0.5, py = 0.2, pz = 0\<rparr>]"

text \<open>A closed hand whose index and pinky tips sit 0.16 apart, either side of the palm.\<close>

definition spreadFist :: hand where
  "spreadFist =
     (pointHand 0.5 0.5 0)[8 := \<lparr>px = 0.42, py = 0.5, pz = 0\<rparr>,
                           20 := \<lparr>px = 0.58, py = 0.5, pz = 0\<rparr>]"

text \<open>The point the smoothing of processLandmarks moves the cursor towards.\<close>

definition smoothingTarget :: "hand \<Rightarrow> point" where
  "smoothingTarget hand = \<lparr>px = expandedX hand, py = expandedY hand, pz = finalDepth hand\<rparr>"

text \<open>The second planet of App's initial orbs array.\<close>

definition venus :: orb where
  "venus =
     \<lparr>orbId = ''venus'', active = True, position = \<lparr>px = 3.5, py = 0, pz = 0\<rparr>,
      planetSize = Some 0.45, orbitRadius = Some 3.5, orbitSpeed = Some 2.8,
      orbitOffset = Some (pi * 0.5), tiltAngle = None\<rparr>"

text \<open>
  A camera looking straight down on the orbital plane from the given height above venus,
  with a screen that spans 40 world units.
\<close>

definition topCamera :: "real \<Rightarrow> camera" where
  "topCamera height =
     \<lparr>project = (\<lambda>v. \<lparr>px = px v / 20, py = pz v / 20, pz = 0\<rparr>),
      cameraPosition = \<lparr>px = 3.5, py = height, pz = 0\<rparr>,
      raycastOrbitalPlane = (\<lambda>ndcX ndcY. \<lparr>px = 20 * ndcX, py = 0, pz = 20 * ndcY\<rparr>)\<rparr>"

text \<open>
  Props of a scene holding venus alone, seen from the given height; the camera mode is the
  one App derives for a hand that makes no fist.
\<close>

definition venusScene :: "real \<Rightarrow> grabbed \<Rightarrow> bool \<Rightarrow> bool \<Rightarrow> point \<Rightarrow> props" where
  "venusScene height g tracking pinching cursor =
     \<lparr>orbs = [venus], grabbedOrbs = g, isTracking_prop = tracking,
      isPinching_prop = pinching, handPosition_prop = cursor,
      cameraMode = (if tracking \<and> g \<noteq> [] then ModeDragging else ModeIdle),
      sceneCamera = topCamera height\<rparr>"

text \<open>The cursor exactly over venus on screen, and the cursor 0.4 to its right.\<close>

definition overVenus :: point where
  "overVenus = \<lparr>px = 0.5875, py = 0.5, pz = 0.5\<rparr>"



text \<open>
  A frame in which the candidate finder returns the id c for the primary hand while
  nothing is grabbed, tracking is on and the hand is not steering the camera.
\<close>

definition hovering :: "orb_id \<Rightarrow> lock_input \<Rightarrow> bool" where
  "hovering c f =
     (case f of (p, vis, now) \<Rightarrow>
        \<not> truthy (grabbedOrbId (grabbedOrbs p)) \<and> isTracking_prop p
        \<and> cameraMode p \<noteq> ModeCamera
        \<and> getClosestOrbForHand (sceneCamera p) vis (orbs p) (handPosition_prop p)
              (Object_values (grabbedOrbs p)) = Some c)"


text \<open>Lock refs with venus locked, and the grabbed map with venus held by player_0.\<close>

definition lockedOnVenus :: lockRefs where
  "lockedOnVenus =
     \<lparr>lockedOrbRef = Some ''venus'', lockCandidateRef = None, lockStartTimeRef = 0,
      closestOrbRef = Some ''venus''\<rparr>"

definition grabbedVenus :: grabbed where
  "grabbedVenus = [(''player_0'', ''venus'')]"





text \<open>The grabbed maps whose only possible key is 'player_0'.\<close>

definition playerKeys :: "grabbed \<Rightarrow> bool" where
  "playerKeys g \<longleftrightarrow> distinct (map fst g) \<and> set (map fst g) \<subseteq> {''player_0''}"

text \<open>The world at session start: the given orbs, nothing grabbed, nothing registered.\<close>

definition blankWorld :: "orb list \<Rightarrow> world" where
  "blankWorld os = \<lparr>worldOrbs = os, worldGrabbed = [], worldVisual = Map.empty\<rparr>"

text \<open>The frame of venus in which the pinching hand grabs the locked venus.\<close>

definition grabVenusFrame :: orb_frame where
  "grabVenusFrame =
     (Raycast, venusScene 20 [] True True overVenus, lockedOnVenus, venus, True, 0.016,
      initialOrbRefs venus)"

section \<open>Auxiliary facts\<close>

lemma sqrt_less_iff: "0 < c \<Longrightarrow> sqrt x < c \<longleftrightarrow> x < c\<^sup>2"
  by (metis real_sqrt_less_iff real_sqrt_abs abs_of_pos)

lemma length_pointHand: "length (pointHand a b c) = 21"
  by (simp add: pointHand_def)

lemma nth_pointHand: "i < 21 \<Longrightarrow> pointHand a b c ! i = \<lparr>px = a, py = b, pz = c\<rparr>"
  by (simp add: pointHand_def)

lemma checkFist_pointHand: "checkFist (pointHand a b c)"
  by (simp add: checkFist_def nth_pointHand distance3D_def)

lemma nth_indexOutHand:
  "i < 21 \<Longrightarrow> indexOutHand ! i =
     (if i = 8 then \<lparr>px = 0.5, py = 0.2, pz = 0\<rparr> else \<lparr>px = 0.5, py = 0.5, pz = 0\<rparr>)"
  by (simp add: indexOutHand_def nth_list_update length_pointHand nth_pointHand)

lemma nth_bunchedHand:
  "i < 21 \<Longrightarrow> bunchedHand ! i =
     (if i = 9 then \<lparr>px = 0.5, py = 0.5, pz = 0\<rparr> else \<lparr>px = 0.5, py = 0.8, pz = 0\<rparr>)"
  by (simp add: bunchedHand_def nth_list_update length_pointHand nth_pointHand)

lemma nth_spreadFist:
  "i < 21 \<Longrightarrow> spreadFist ! i =
     (if i = 20 then \<lparr>px = 0.58, py = 0.5, pz = 0\<rparr>
      else if i = 8 then \<lparr>px = 0.42, py = 0.5, pz = 0\<rparr>
      else \<lparr>px = 0.5, py = 0.5, pz = 0\<rparr>)"
  by (simp add: spreadFist_def nth_list_update length_pointHand nth_pointHand)

lemma sqrt_values: "sqrt (4 / 625) = 2 / 25" "sqrt (16 / 625) = 4 / 25"
  by (rule real_sqrt_unique; simp add: power2_eq_square)+

lemma spreadFist_facts:
  "checkFist spreadFist"
  "\<not> distance3D (spreadFist ! 8) (spreadFist ! 20) < 0.15"
  "fistBySpec spreadFist"
  by (simp_all add: checkFist_def fistBySpec_def fingers_def fingerCurled_def
      fingerNearPalm_def nth_spreadFist distance3D_def sqrt_values)

lemma expandedX_pointHand: "expandedX (pointHand a b c) = expandRange (1 - a) 0.5 1.5"
  by (simp add: expandedX_def targetX_def isPinch_def isFistGesture_def checkFist_pointHand
      nth_pointHand)

lemma lerp_fixed: "f \<noteq> 0 \<Longrightarrow> lerp a b f = a \<longleftrightarrow> a = b"
  by (auto simp: lerp_def)

lemma pinchHand_nth:
  "pinchHand ! 4 = \<lparr>px = 0.5, py = 0.2, pz = 0\<rparr>"
  "pinchHand ! 8 = \<lparr>px = 0.5, py = 0.2, pz = 0\<rparr>"
  "pinchHand ! 12 = \<lparr>px = 0.5, py = 0.2, pz = 0\<rparr>"
  "pinchHand ! 16 = \<lparr>px = 0.5, py = 0.2, pz = 0\<rparr>"
  "pinchHand ! 20 = \<lparr>px = 0.5, py = 0.2, pz = 0\<rparr>"
  "pinchHand ! 6 = \<lparr>px = 0.5, py = 0.5, pz = 0\<rparr>"
  "pinchHand ! 10 = \<lparr>px = 0.5, py = 0.5, pz = 0\<rparr>"
  "pinchHand ! 14 = \<lparr>px = 0.5, py = 0.5, pz = 0\<rparr>"
  "pinchHand ! 18 = \<lparr>px = 0.5, py = 0.5, pz = 0\<rparr>"
  "pinchHand ! 9 = \<lparr>px = 0.5, py = 0.5, pz = 0\<rparr>"
  by (simp_all add: pinchHand_def nth_list_update length_pointHand nth_pointHand)

lemma length_pinchHand: "length pinchHand = 21"
  by (simp add: pinchHand_def length_pointHand)

lemma pinchHand_open: "\<not> checkFist pinchHand"
  by (simp add: checkFist_def pinchHand_nth)

lemma pinchHand_pinch: "isPinch pinchHand"
  by (simp add: isPinch_def isFistGesture_def pinchHand_open pinchHand_nth distance3D_def
      PINCH_THRESHOLD_def)

lemma arrayIndex_player_0: "arrayIndex ''player_0'' = None"
  by (simp add: arrayIndex_def isDigit_def)

lemma Object_set_player_0: "Object_set ''player_0'' v g = AList.update ''player_0'' v g"
  by (simp add: Object_set_def arrayIndex_player_0)

lemma grabbedOrbId_index_keys:
  "grabbedOrbId (setGrabbedOrbId (Some ''mars'') ''1''
       (setGrabbedOrbId (Some ''venus'') ''2'' [])) = Some ''mars''"
  by (simp add: setGrabbedOrbId_def Object_set_def arrayIndex_def isDigit_def decimalValue_def
      grabbedOrbId_def)

lemma nth_indexPinchHand:
  "i < 21 \<Longrightarrow> indexPinchHand ! i =
     (if i = 8 \<or> i = 4 then \<lparr>px = 0.5, py = 0.2, pz = 0\<rparr>
      else \<lparr>px = 0.5, py = 0.5, pz = 0\<rparr>)"
  by (simp add: indexPinchHand_def nth_list_update length_pointHand nth_pointHand)

lemma length_indexPinchHand: "length indexPinchHand = 21"
  by (simp add: indexPinchHand_def length_pointHand)

section \<open>Fist precedence\<close>

text \<open>
  C3, as stated, fails when the fist geometric condition is the specification's (3 of the
  4 fingers meet both (a) and (b)). With three fingers folded onto the palm, the index
  finger stretched out and the thumb tip on the index tip, that condition and the pinch
  condition both hold, yet the classifier reports no fist and a pinch.
\<close>

theorem fist_precedence_counterexample:
  "fistBySpec indexPinchHand
   \<and> distance3D (indexPinchHand ! 4) (indexPinchHand ! 8) < PINCH_THRESHOLD
   \<and> \<not> isFist (runDetection initialTracker [indexPinchHand])
   \<and> isPinching (runDetection initialTracker [indexPinchHand])"
proof -
  have a: "fistBySpec indexPinchHand"
    by (simp add: fistBySpec_def fingers_def fingerCurled_def fingerNearPalm_def
        nth_indexPinchHand distance3D_def)
  have b: "distance3D (indexPinchHand ! 4) (indexPinchHand ! 8) < PINCH_THRESHOLD"
    by (simp add: nth_indexPinchHand distance3D_def PINCH_THRESHOLD_def)
  have c: "\<not> checkFist indexPinchHand"
    by (simp add: checkFist_def nth_indexPinchHand distance3D_def)
  have d: "isPinch indexPinchHand"
    using b c by (simp add: isPinch_def isFistGesture_def)
  have "\<not> isFist (runDetection initialTracker [indexPinchHand])
      \<and> isPinching (runDetection initialTracker [indexPinchHand])"
    using c d
    by (simp add: runDetection_def processLandmarks_def length_indexPinchHand Let_def
        isFistGesture_def)
  with a b show ?thesis by simp
qed

text \<open>
  C3, amended. For a hand of 21 landmarks, the classifier reports isFist exactly when at
  least 3 of the 4 fingers are curled (a) and, besides, all four tips are near the palm
  (b) or the index and pinky tips are less than 0.15 apart. Whenever that rule and the
  pinch condition both hold, it reports isFist and not isPinching; this is so in
  particular when the specification's 3-of-4 condition holds together with (b) for all
  four tips or with index and pinky tips less than 0.15 apart. It reports isPinching
  exactly when the rule fails and the pinch condition holds.
\<close>

theorem fist_precedence:
  assumes "length hand \<ge> 21"
  shows "\<exists>st'. processLandmarks st (hand # rest) = Inr st'
           \<and> (isFist st' \<longleftrightarrow>
                 3 \<le> length (filter (fingerCurled hand) fingers)
                 \<and> (list_all (fingerNearPalm hand) fingers
                      \<or> distance3D (hand ! 8) (hand ! 20) < 0.15))
           \<and> (3 \<le> length (filter (fingerCurled hand) fingers)
                 \<and> (list_all (fingerNearPalm hand) fingers
                      \<or> distance3D (hand ! 8) (hand ! 20) < 0.15)
                 \<and> distance3D (hand ! 4) (hand ! 8) < PINCH_THRESHOLD
                \<longrightarrow> isFist st' \<and> \<not> isPinching st')
           \<and> (fistBySpec hand
                 \<and> (list_all (fingerNearPalm hand) fingers
                      \<or> distance3D (hand ! 8) (hand ! 20) < 0.15)
                 \<and> distance3D (hand ! 4) (hand ! 8) < PINCH_THRESHOLD
                \<longrightarrow> isFist st' \<and> \<not> isPinching st')
           \<and> (isPinching st' \<longleftrightarrow>
                 \<not> (3 \<le> length (filter (fingerCurled hand) fingers)
                    \<and> (list_all (fingerNearPalm hand) fingers
                         \<or> distance3D (hand ! 8) (hand ! 20) < 0.15))
                 \<and> distance3D (hand ! 4) (hand ! 8) < PINCH_THRESHOLD)"
proof -
  have r: "checkFist hand \<longleftrightarrow>
      3 \<le> length (filter (fingerCurled hand) fingers)
      \<and> (list_all (fingerNearPalm hand) fingers \<or> distance3D (hand ! 8) (hand ! 20) < 0.15)"
    by (auto simp add: checkFist_def fingers_def fingerCurled_def fingerNearPalm_def Let_def)
  have q: "fistBySpec hand \<Longrightarrow> 3 \<le> length (filter (fingerCurled hand) fingers)"
    by (auto simp add: fistBySpec_def fingers_def split: if_splits)
  obtain st' where s: "processLandmarks st (hand # rest) = Inr st'"
    and f: "isFist st' = checkFist hand"
    and p: "isPinching st'
              = (\<not> checkFist hand \<and> distance3D (hand ! 4) (hand ! 8) < PINCH_THRESHOLD)"
    using assms by (simp add: processLandmarks_def Let_def isPinch_def isFistGesture_def)
  show ?thesis
    using s f p r q by blast
qed

theorem fist_precedence_witness:
  "21 \<le> length (pointHand 0.5 0.5 0)
   \<and> 3 \<le> length (filter (fingerCurled (pointHand 0.5 0.5 0)) fingers)
   \<and> list_all (fingerNearPalm (pointHand 0.5 0.5 0)) fingers
   \<and> fistBySpec (pointHand 0.5 0.5 0)
   \<and> distance3D (pointHand 0.5 0.5 0 ! 4) (pointHand 0.5 0.5 0 ! 8) < PINCH_THRESHOLD
   \<and> (\<exists>st'. processLandmarks initialTracker [pointHand 0.5 0.5 0] = Inr st'
          \<and> isFist st' \<and> \<not> isPinching st')
   \<and> 21 \<le> length pinchHand
   \<and> \<not> 3 \<le> length (filter (fingerCurled pinchHand) fingers)
   \<and> distance3D (pinchHand ! 4) (pinchHand ! 8) < PINCH_THRESHOLD
   \<and> (\<exists>st'. processLandmarks initialTracker [pinchHand] = Inr st'
          \<and> isPinching st' \<and> \<not> isFist st')"
proof -
  have l: "21 \<le> length (pointHand 0.5 0.5 0)" "21 \<le> length pinchHand"
    by (simp_all add: length_pointHand length_pinchHand)
  have c: "3 \<le> length (filter (fingerCurled (pointHand 0.5 0.5 0)) fingers)"
    "list_all (fingerNearPalm (pointHand 0.5 0.5 0)) fingers"
    "fistBySpec (pointHand 0.5 0.5 0)"
    "distance3D (pointHand 0.5 0.5 0 ! 4) (pointHand 0.5 0.5 0 ! 8) < PINCH_THRESHOLD"
    by (simp_all add: fistBySpec_def fingers_def fingerCurled_def fingerNearPalm_def
        nth_pointHand distance3D_def PINCH_THRESHOLD_def)
  have d: "\<not> 3 \<le> length (filter (fingerCurled pinchHand) fingers)"
    "distance3D (pinchHand ! 4) (pinchHand ! 8) < PINCH_THRESHOLD"
    by (simp_all add: fingers_def fingerCurled_def pinchHand_nth distance3D_def
        PINCH_THRESHOLD_def)
  have a: "\<exists>st'. processLandmarks initialTracker [pointHand 0.5 0.5 0] = Inr st'
          \<and> isFist st' \<and> \<not> isPinching st'"
    using fist_precedence [OF l(1), of initialTracker "[]"] c by blast
  have b: "\<exists>st'. processLandmarks initialTracker [pinchHand] = Inr st'
          \<and> isPinching st' \<and> \<not> isFist st'"
    using fist_precedence [OF l(2), of initialTracker "[]"] d by blast
  from l c d a b show ?thesis by blast
qed

section \<open>The cursor stays in the unit cube\<close>

lemma lerp_unit:
  assumes "0 \<le> a" "a \<le> 1" "0 \<le> b" "b \<le> 1" "0 \<le> f" "f \<le> 1"
  shows "0 \<le> lerp a b f \<and> lerp a b f \<le> 1"
proof -
  have e: "lerp a b f = (1 - f) * a + f * b" by (simp add: lerp_def algebra_simps)
  have "0 \<le> (1 - f) * a" "0 \<le> f * b" using assms by simp_all
  moreover have "(1 - f) * a \<le> 1 - f" using assms mult_left_mono[of a 1 "1 - f"] by simp
  moreover have "f * b \<le> f" using assms mult_left_mono[of b 1 f] by simp
  ultimately have "0 \<le> (1 - f) * a + f * b" "(1 - f) * a + f * b \<le> 1" by linarith+
  then show ?thesis unfolding e by simp
qed

lemma expandRange_unit: "0 \<le> expandRange v c e \<and> expandRange v c e \<le> 1"
  by (simp add: expandRange_def Let_def)

lemma baseDepth_unit: "0 \<le> fst (calculateHandDepth h) \<and> fst (calculateHandDepth h) \<le> 1"
  by (simp add: calculateHandDepth_def Let_def)

lemma pinchAdjustment_unit:
  "0 \<le> calculatePinchDepthAdjustment h \<and> calculatePinchDepthAdjustment h \<le> 1"
  by (simp add: calculatePinchDepthAdjustment_def Let_def)

lemma finalDepth_unit: "0 \<le> finalDepth h \<and> finalDepth h \<le> 1"
  using baseDepth_unit[of h] pinchAdjustment_unit[of h]
  by (auto simp: finalDepth_def Let_def)

lemma runDetection_unit:
  assumes "unitPoint (lastPositionRef st)" "unitPoint (handPosition st)"
  shows "unitPoint (lastPositionRef (runDetection st lms))
           \<and> unitPoint (handPosition (runDetection st lms))"
proof (cases lms)
  case Nil
  then show ?thesis using assms by (simp add: runDetection_def processLandmarks_def)
next
  case (Cons h rest)
  show ?thesis
  proof (cases "length h < 21")
    case True
    then show ?thesis using assms Cons by (simp add: runDetection_def processLandmarks_def)
  next
    case False
    have x: "0 \<le> lerp (px (lastPositionRef st)) (expandedX h) LERP_FACTOR
               \<and> lerp (px (lastPositionRef st)) (expandedX h) LERP_FACTOR \<le> 1"
      using assms(1) expandRange_unit[of "1 - targetX h" "0.5" "1.5"]
      by (intro lerp_unit) (simp_all add: unitPoint_def expandedX_def LERP_FACTOR_def)
    have y: "0 \<le> lerp (py (lastPositionRef st)) (expandedY h) LERP_FACTOR
               \<and> lerp (py (lastPositionRef st)) (expandedY h) LERP_FACTOR \<le> 1"
      using assms(1) expandRange_unit[of "1 - targetY h" "0.5" "1.5"]
      by (intro lerp_unit) (simp_all add: unitPoint_def expandedY_def LERP_FACTOR_def)
    have z: "0 \<le> lerp (pz (lastPositionRef st)) (finalDepth h) LERP_FACTOR_DEPTH
               \<and> lerp (pz (lastPositionRef st)) (finalDepth h) LERP_FACTOR_DEPTH \<le> 1"
      using assms(1) finalDepth_unit[of h]
      by (intro lerp_unit) (simp_all add: unitPoint_def LERP_FACTOR_DEPTH_def)
    show ?thesis using False Cons x y z
      by (simp add: runDetection_def processLandmarks_def Let_def unitPoint_def)
  qed
qed

lemma foldl_runDetection_unit:
  "unitPoint (lastPositionRef st) \<Longrightarrow> unitPoint (handPosition st) \<Longrightarrow>
   unitPoint (lastPositionRef (foldl runDetection st ticks))
     \<and> unitPoint (handPosition (foldl runDetection st ticks))"
proof (induction ticks arbitrary: st)
  case Nil
  then show ?case by simp
next
  case (Cons t ticks)
  then show ?case using runDetection_unit[of st t] by simp
qed

text \<open>
  C10. After any sequence of detector ticks (hands, empty detections, malformed hands)
  from the hook's initial state, the emitted cursor has x, y and z in [0, 1].
\<close>

theorem cursor_in_unit_cube:
  "0 \<le> px (handPosition (runTicks ticks)) \<and> px (handPosition (runTicks ticks)) \<le> 1
   \<and> 0 \<le> py (handPosition (runTicks ticks)) \<and> py (handPosition (runTicks ticks)) \<le> 1
   \<and> 0 \<le> pz (handPosition (runTicks ticks)) \<and> pz (handPosition (runTicks ticks)) \<le> 1"
  using foldl_runDetection_unit[of initialTracker ticks]
  by (simp add: runTicks_def unitPoint_def initialTracker_def)

section \<open>The fist rule\<close>

text \<open>
  C9, as stated, fails in both directions. With three fingers folded onto the palm and the
  index finger stretched out, three of four fingers meet (a) and (b), yet checkFist is
  false; with all tips bunched together 0.3 away from the palm reference, no finger meets
  (b), yet checkFist is true.
\<close>

theorem fist_rule_counterexample:
  "fistBySpec indexOutHand \<and> \<not> checkFist indexOutHand
   \<and> checkFist bunchedHand \<and> \<not> fistBySpec bunchedHand"
proof -
  have a: "fistBySpec indexOutHand"
    by (simp add: fistBySpec_def fingers_def fingerCurled_def fingerNearPalm_def
        nth_indexOutHand distance3D_def)
  have b: "\<not> checkFist indexOutHand"
    by (simp add: checkFist_def nth_indexOutHand distance3D_def)
  have c: "checkFist bunchedHand"
    by (simp add: checkFist_def nth_bunchedHand distance3D_def)
  have d: "\<not> fistBySpec bunchedHand"
    by (simp add: fistBySpec_def fingers_def fingerCurled_def fingerNearPalm_def
        nth_bunchedHand distance3D_def)
  from a b c d show ?thesis by simp
qed

text \<open>
  C9, amended. checkFist holds exactly when at least 3 of the 4 fingers are curled (a) and,
  besides, either all four tips are near the palm (b) or the index and pinky tips are less
  than 0.15 apart. Hence four fingers meeting (a) and (b) make a fist, and a fist whose
  index and pinky tips are at least 0.15 apart meets the 3-of-4 rule of the specification.
\<close>

theorem fist_rule:
  "(checkFist hand \<longleftrightarrow>
      3 \<le> length (filter (fingerCurled hand) fingers)
      \<and> (list_all (fingerNearPalm hand) fingers \<or> distance3D (hand ! 8) (hand ! 20) < 0.15))
   \<and> (list_all (\<lambda>f. fingerCurled hand f \<and> fingerNearPalm hand f) fingers \<longrightarrow> checkFist hand)
   \<and> (checkFist hand \<and> \<not> distance3D (hand ! 8) (hand ! 20) < 0.15 \<longrightarrow> fistBySpec hand)"
  by (auto simp add: checkFist_def fistBySpec_def fingers_def fingerCurled_def
      fingerNearPalm_def Let_def)

theorem fist_rule_witness:
  "list_all (\<lambda>f. fingerCurled (pointHand 0.5 0.5 0) f \<and> fingerNearPalm (pointHand 0.5 0.5 0) f)
     fingers
   \<and> checkFist (pointHand 0.5 0.5 0)
   \<and> checkFist spreadFist \<and> \<not> distance3D (spreadFist ! 8) (spreadFist ! 20) < 0.15
   \<and> fistBySpec spreadFist
   \<and> 3 \<le> length (filter (fingerCurled spreadFist) fingers)
   \<and> list_all (fingerNearPalm spreadFist) fingers"
  using fist_rule[of "pointHand 0.5 0.5 0"] fist_rule[of spreadFist] spreadFist_facts(1,2)
  by (simp add: fingers_def fingerCurled_def fingerNearPalm_def nth_pointHand distance3D_def)

section \<open>The same frame twice\<close>

text \<open>
  C8, as stated, fails: from the initial cursor, the same hand (palm reference at x = 0.2)
  fed twice gives x = 0.6575 and then x = 0.759875, so the second cursor differs from
  the first.
\<close>

theorem repeated_frame_counterexample:
  "px (handPosition (runDetection initialTracker [pointHand 0.2 0.5 0])) = 0.6575
   \<and> px (handPosition (runDetection (runDetection initialTracker [pointHand 0.2 0.5 0])
                          [pointHand 0.2 0.5 0])) = 0.759875
   \<and> handPosition (runDetection (runDetection initialTracker [pointHand 0.2 0.5 0])
                          [pointHand 0.2 0.5 0])
       \<noteq> handPosition (runDetection initialTracker [pointHand 0.2 0.5 0])"
proof -
  have v: "px (handPosition (runDetection initialTracker [pointHand 0.2 0.5 0])) = 0.6575
     \<and> px (handPosition (runDetection (runDetection initialTracker [pointHand 0.2 0.5 0])
                          [pointHand 0.2 0.5 0])) = 0.759875"
    by (simp add: runDetection_def processLandmarks_def length_pointHand Let_def
        expandedX_pointHand expandRange_def initialTracker_def lerp_def LERP_FACTOR_def)
  then have "px (handPosition (runDetection (runDetection initialTracker [pointHand 0.2 0.5 0])
                          [pointHand 0.2 0.5 0]))
       \<noteq> px (handPosition (runDetection initialTracker [pointHand 0.2 0.5 0]))"
    by simp
  then have "handPosition (runDetection (runDetection initialTracker [pointHand 0.2 0.5 0])
                          [pointHand 0.2 0.5 0])
       \<noteq> handPosition (runDetection initialTracker [pointHand 0.2 0.5 0])"
    by metis
  with v show ?thesis by simp
qed

text \<open>
  C8, amended. The same hand of 21 landmarks fed twice gives the same gesture flags; each
  cursor coordinate of the second output is the first one moved a further smoothing step
  towards the same target, so the two cursors are equal exactly when the first already
  sits on the target.
\<close>

theorem repeated_frame:
  assumes "length hand \<ge> 21"
  shows "\<exists>s1 s2. processLandmarks st (hand # rest) = Inr s1
           \<and> processLandmarks s1 (hand # rest) = Inr s2
           \<and> isFist s2 = isFist s1 \<and> isPinching s2 = isPinching s1
           \<and> isTracking s2 = isTracking s1
           \<and> px (handPosition s2) = lerp (px (handPosition s1)) (expandedX hand) LERP_FACTOR
           \<and> py (handPosition s2) = lerp (py (handPosition s1)) (expandedY hand) LERP_FACTOR
           \<and> pz (handPosition s2) = lerp (pz (handPosition s1)) (finalDepth hand) LERP_FACTOR_DEPTH
           \<and> (handPosition s2 = handPosition s1 \<longleftrightarrow> handPosition s1 = smoothingTarget hand)"
proof -
  have ne: "LERP_FACTOR \<noteq> 0" "LERP_FACTOR_DEPTH \<noteq> 0"
    by (simp_all add: LERP_FACTOR_def LERP_FACTOR_DEPTH_def)
  obtain s1 where s1: "processLandmarks st (hand # rest) = Inr s1"
    and l1: "lastPositionRef s1 = handPosition s1"
    using assms by (simp add: processLandmarks_def Let_def)
  obtain s2 where s2: "processLandmarks s1 (hand # rest) = Inr s2"
    and f: "isFist s2 = isFistGesture hand" "isPinching s2 = isPinch hand" "isTracking s2"
    and p: "handPosition s2 =
             \<lparr>px = lerp (px (lastPositionRef s1)) (expandedX hand) LERP_FACTOR,
              py = lerp (py (lastPositionRef s1)) (expandedY hand) LERP_FACTOR,
              pz = lerp (pz (lastPositionRef s1)) (finalDepth hand) LERP_FACTOR_DEPTH\<rparr>"
    using assms by (simp add: processLandmarks_def Let_def)
  have f1: "isFist s1 = isFistGesture hand" "isPinching s1 = isPinch hand" "isTracking s1"
    using s1 assms by (auto simp add: processLandmarks_def Let_def)
  have fixed: "handPosition s2 = handPosition s1 \<longleftrightarrow> handPosition s1 = smoothingTarget hand"
    unfolding p l1 smoothingTarget_def
    by (cases "handPosition s1") (auto simp: lerp_fixed[OF ne(1)] lerp_fixed[OF ne(2)])
  show ?thesis
    using s1 s2 f f1 fixed by (simp add: p l1)
qed

theorem repeated_frame_witness:
  "21 \<le> length (pointHand 0.2 0.5 0)
   \<and> (\<exists>s1 s2. processLandmarks initialTracker [pointHand 0.2 0.5 0] = Inr s1
           \<and> processLandmarks s1 [pointHand 0.2 0.5 0] = Inr s2
           \<and> isFist s2 = isFist s1 \<and> isPinching s2 = isPinching s1
           \<and> isTracking s2 = isTracking s1
           \<and> px (handPosition s2)
               = lerp (px (handPosition s1)) (expandedX (pointHand 0.2 0.5 0)) LERP_FACTOR
           \<and> py (handPosition s2)
               = lerp (py (handPosition s1)) (expandedY (pointHand 0.2 0.5 0)) LERP_FACTOR
           \<and> pz (handPosition s2)
               = lerp (pz (handPosition s1)) (finalDepth (pointHand 0.2 0.5 0)) LERP_FACTOR_DEPTH
           \<and> (handPosition s2 = handPosition s1
                \<longleftrightarrow> handPosition s1 = smoothingTarget (pointHand 0.2 0.5 0)))"
  using repeated_frame[of "pointHand 0.2 0.5 0" initialTracker "[]"]
  by (simp add: length_pointHand)

section \<open>Angle interpolation\<close>

lemma arctan_lower: "0 \<le> x \<Longrightarrow> x - x^3 / 3 \<le> arctan x"
proof -
  assume x: "0 \<le> x"
  let ?f = "\<lambda>t. arctan t - t + t^3 / 3"
  have "?f 0 \<le> ?f x"
  proof (rule DERIV_nonneg_imp_nondecreasing[OF x])
    fix t :: real assume "0 \<le> t" "t \<le> x"
    have d: "(?f has_real_derivative (1 / (1 + t\<^sup>2) - 1 + t\<^sup>2)) (at t)"
      by (auto intro!: derivative_eq_intros simp: field_simps)
    have "1 / (1 + t\<^sup>2) - 1 + t\<^sup>2 = t^4 / (1 + t\<^sup>2)"
      by (simp add: field_simps power4_eq_xxxx power2_eq_square add_nonneg_eq_0_iff) 
    then have "0 \<le> 1 / (1 + t\<^sup>2) - 1 + t\<^sup>2" by simp
    with d show "\<exists>y. (?f has_real_derivative y) (at t) \<and> 0 \<le> y" by blast
  qed
  then show ?thesis by simp
qed

lemma arctan_upper: "0 \<le> x \<Longrightarrow> arctan x \<le> x"
proof -
  assume x: "0 \<le> x"
  let ?f = "\<lambda>t. t - arctan t"
  have "?f 0 \<le> ?f x"
  proof (rule DERIV_nonneg_imp_nondecreasing[OF x])
    fix t :: real assume "0 \<le> t" "t \<le> x"
    have d: "(?f has_real_derivative (1 - 1 / (1 + t\<^sup>2))) (at t)"
      by (auto intro!: derivative_eq_intros simp: field_simps)
    have "0 < 1 + t\<^sup>2" by (simp add: add_pos_nonneg)
    then have "1 / (1 + t\<^sup>2) \<le> 1" by (simp add: divide_le_eq)
    then have "0 \<le> 1 - 1 / (1 + t\<^sup>2)" by simp
    with d show "\<exists>y. (?f has_real_derivative y) (at t) \<and> 0 \<le> y" by blast
  qed
  then show ?thesis by simp
qed

lemma pi_bounds: "3.05 < pi" "pi < 3.2"
proof -
  have a: "1/5 - (1/5)^3 / 3 \<le> arctan (1/5::real)" using arctan_lower[of "1/5"] by simp
  have a': "arctan (1/5::real) \<le> 1/5" using arctan_upper[of "1/5"] by simp
  have b: "arctan (1/239::real) \<le> 1/239" using arctan_upper[of "1/239"] by simp
  have b': "0 \<le> arctan (1/239::real)" by simp
  have m: "pi = 16 * arctan (1/5) - 4 * arctan (1/239)" using machin by simp
  from a b m show "3.05 < pi" by (simp add: power3_eq_cube)
  have pos: "0 < arctan (1/239::real)" by simp
  from a' m pos show "pi < 3.2" by linarith
qed

lemma wrapDown_props:
  "wrapDown d \<le> max d pi \<and> wrapDown d \<le> pi \<and> (d \<le> pi \<longrightarrow> wrapDown d = d)
   \<and> (pi < d \<longrightarrow> - pi < wrapDown d) \<and> (\<exists>k::int. wrapDown d = d + 2 * pi * of_int k)"
proof (induction d rule: wrapDown.induct)
  case (1 diff)
  show ?case
  proof (cases "diff > pi")
    case True
    note ih = 1[OF True]
    have e: "wrapDown diff = wrapDown (diff - pi * 2)" using True by (subst wrapDown.simps) simp
    from ih obtain k :: int where k: "wrapDown (diff - pi * 2) = diff - pi * 2 + 2 * pi * of_int k"
      by blast
    have "wrapDown diff = diff + 2 * pi * of_int (k - 1)" unfolding e k by (simp add: algebra_simps)
    then have ex: "\<exists>k::int. wrapDown diff = diff + 2 * pi * of_int k" by blast
    have lo: "- pi < wrapDown diff"
    proof (cases "diff - pi * 2 \<le> pi")
      case True
      with ih have "wrapDown (diff - pi * 2) = diff - pi * 2" by simp
      with \<open>diff > pi\<close> show ?thesis unfolding e by simp
    next
      case False
      with ih show ?thesis unfolding e by simp
    qed
    from ih have "wrapDown diff \<le> pi" unfolding e by simp
    with True ex lo show ?thesis by simp
  next
    case False
    then have "wrapDown diff = diff" by (subst wrapDown.simps) simp
    moreover have "\<exists>k::int. diff = diff + 2 * pi * of_int k" by (rule exI[of _ 0]) simp
    ultimately show ?thesis using False by simp
  qed
qed

lemma wrapUp_props:
  "- pi \<le> wrapUp d \<and> (- pi \<le> d \<longrightarrow> wrapUp d = d)
   \<and> (d < - pi \<longrightarrow> wrapUp d < pi) \<and> (\<exists>k::int. wrapUp d = d + 2 * pi * of_int k)"
proof (induction d rule: wrapUp.induct)
  case (1 diff)
  show ?case
  proof (cases "diff < - pi")
    case True
    note ih = 1[OF True]
    have e: "wrapUp diff = wrapUp (diff + pi * 2)" using True by (subst wrapUp.simps) simp
    from ih obtain k :: int where k: "wrapUp (diff + pi * 2) = diff + pi * 2 + 2 * pi * of_int k"
      by blast
    have "wrapUp diff = diff + 2 * pi * of_int (k + 1)" unfolding e k by (simp add: algebra_simps)
    then have ex: "\<exists>k::int. wrapUp diff = diff + 2 * pi * of_int k" by blast
    have hi: "wrapUp diff < pi"
    proof (cases "- pi \<le> diff + pi * 2")
      case True
      with ih have "wrapUp (diff + pi * 2) = diff + pi * 2" by simp
      with \<open>diff < - pi\<close> show ?thesis unfolding e by simp
    next
      case False
      with ih show ?thesis unfolding e by simp
    qed
    from ih have "- pi \<le> wrapUp diff" unfolding e by simp
    with True ex hi show ?thesis by simp
  next
    case False
    then have "wrapUp diff = diff" by (subst wrapUp.simps) simp
    moreover have "\<exists>k::int. diff = diff + 2 * pi * of_int k" by (rule exI[of _ 0]) simp
    ultimately show ?thesis using False by simp
  qed
qed

lemma normalizedDiff_range: "- pi \<le> normalizedDiff c t \<and> normalizedDiff c t \<le> pi"
proof -
  let ?r = "wrapDown (t - c)"
  have r: "?r \<le> pi" using wrapDown_props[of "t - c"] by simp
  show ?thesis
  proof (cases "- pi \<le> ?r")
    case True
    then have "wrapUp ?r = ?r" using wrapUp_props[of ?r] by simp
    with True r show ?thesis by (simp add: normalizedDiff_def)
  next
    case False
    then have "wrapUp ?r < pi" "- pi \<le> wrapUp ?r" using wrapUp_props[of ?r] by simp_all
    then show ?thesis by (simp add: normalizedDiff_def)
  qed
qed

lemma normalizedDiff_cong: "\<exists>k::int. normalizedDiff c t = t - c + 2 * pi * of_int k"
proof -
  obtain k1 :: int where k1: "wrapDown (t - c) = t - c + 2 * pi * of_int k1"
    using wrapDown_props[of "t - c"] by blast
  obtain k2 :: int where k2: "wrapUp (wrapDown (t - c)) = wrapDown (t - c) + 2 * pi * of_int k2"
    using wrapUp_props[of "wrapDown (t - c)"] by blast
  have "normalizedDiff c t = wrapDown (t - c) + 2 * pi * of_int k2"
    by (simp add: normalizedDiff_def k2)
  also have "\<dots> = t - c + 2 * pi * of_int k1 + 2 * pi * of_int k2"
    by (simp only: k1)
  finally have "normalizedDiff c t = t - c + 2 * pi * of_int (k1 + k2)"
    by (simp add: algebra_simps)
  then show ?thesis by blast
qed

lemma shortest_repr:
  fixes n :: real and j :: int
  assumes "- pi \<le> n" "n \<le> pi"
  shows "\<bar>n\<bar> \<le> \<bar>n + 2 * pi * of_int j\<bar>"
proof (cases "j = 0")
  case True then show ?thesis by simp
next
  case False
  then consider "j \<ge> 1" | "j \<le> - 1" by linarith
  then show ?thesis
  proof cases
    case 1
    then have "(1::real) \<le> of_int j" by simp
    then have "2 * pi * 1 \<le> 2 * pi * of_int j" by (intro mult_left_mono) simp_all
    with assms show ?thesis by linarith
  next
    case 2
    then have "of_int j \<le> (- 1::real)" by linarith
    then have "2 * pi * of_int j \<le> 2 * pi * (- 1)" by (intro mult_left_mono) simp_all
    with assms show ?thesis by linarith
  qed
qed

lemma normalizedDiff_shortest: "\<bar>normalizedDiff c t\<bar> \<le> \<bar>t - c + 2 * pi * of_int (k::int)\<bar>"
proof -
  obtain k0 :: int where k0: "normalizedDiff c t = t - c + 2 * pi * of_int k0"
    using normalizedDiff_cong by blast
  have "t - c + 2 * pi * of_int k = normalizedDiff c t + 2 * pi * of_int (k - k0)"
    unfolding k0 by (simp add: algebra_simps)
  then show ?thesis using shortest_repr[OF normalizedDiff_range[THEN conjunct1] normalizedDiff_range[THEN conjunct2], of c t "k - k0"]
    by simp
qed

lemma example_diff: "normalizedDiff 3.1 (- 3.0) = 2 * pi - 6.1"
proof -
  have n: "\<not> (- 3.0 - 3.1 > pi)" using pi_gt_zero by linarith
  have a: "wrapDown (- 3.0 - 3.1) = - 3.0 - 3.1"
    using n by (subst wrapDown.simps) simp
  have b: "wrapUp (- 3.0 - 3.1) = wrapUp (- 3.0 - 3.1 + pi * 2)"
    using pi_bounds by (subst wrapUp.simps) simp
  have c: "wrapUp (- 3.0 - 3.1 + pi * 2) = - 3.0 - 3.1 + pi * 2"
    using pi_bounds by (subst wrapUp.simps) simp
  show ?thesis unfolding normalizedDiff_def a b c by simp
qed

lemma boundary_diff: "normalizedDiff pi 0 = - pi"
proof -
  have a: "wrapDown (0 - pi) = 0 - pi"
    using pi_gt_zero by (subst wrapDown.simps) simp
  have b: "wrapUp (0 - pi) = 0 - pi"
    by (subst wrapUp.simps) simp
  show ?thesis unfolding normalizedDiff_def a b by simp
qed

lemma small_step:
  fixes c d f :: real
  assumes "0 < d" "d < 0.3" "0 < f" "f \<le> 1"
  shows "c < c + d * f \<and> c + d * f < c + 0.3"
proof -
  have "0 < d * f" using assms by simp
  moreover have "d * f \<le> d * 1" using assms by (intro mult_left_mono) simp_all
  then have "d * f \<le> d" by simp
  ultimately show ?thesis using assms(2) by linarith
qed

text \<open>
  C6, as stated, fails at the boundary: for current = pi and target = 0 the delta - pi
  passes both loops unchanged, so the normalised delta is - pi, outside (- pi, pi].
\<close>

theorem angle_wrap_counterexample:
  "normalizedDiff pi 0 = - pi \<and> \<not> (- pi < normalizedDiff pi 0 \<and> normalizedDiff pi 0 \<le> pi)"
  using boundary_diff by simp

text \<open>
  C6, amended. lerpAngle adds to the current angle the delta target - current brought into
  the closed interval [- pi, pi] by whole turns, scaled by t; this delta is the smallest in
  magnitude among all deltas congruent to target - current. From 3.1 towards - 3.0 the delta
  is 2 pi - 6.1, between 0 and 0.3: the angle increases through pi, by less than 0.3 per
  step at either interpolation speed (0.2 grabbed, 0.15 free).
\<close>

theorem angle_wrap:
  "lerpAngle c t f = c + normalizedDiff c t * f
   \<and> - pi \<le> normalizedDiff c t \<and> normalizedDiff c t \<le> pi
   \<and> (\<exists>k::int. normalizedDiff c t = t - c + 2 * pi * of_int k)
   \<and> (\<forall>k::int. \<bar>normalizedDiff c t\<bar> \<le> \<bar>t - c + 2 * pi * of_int k\<bar>)
   \<and> normalizedDiff 3.1 (- 3.0) = 2 * pi - 6.1
   \<and> 0 < normalizedDiff 3.1 (- 3.0) \<and> normalizedDiff 3.1 (- 3.0) < 0.3
   \<and> 3.1 < lerpAngle 3.1 (- 3.0) 0.2 \<and> lerpAngle 3.1 (- 3.0) 0.2 < 3.1 + 0.3
   \<and> 3.1 < lerpAngle 3.1 (- 3.0) 0.15 \<and> lerpAngle 3.1 (- 3.0) 0.15 < 3.1 + 0.3"
proof -
  have d: "0 < normalizedDiff 3.1 (- 3.0)" "normalizedDiff 3.1 (- 3.0) < 0.3"
    using pi_bounds unfolding example_diff by simp_all
  have s: "3.1 < lerpAngle 3.1 (- 3.0) 0.2" "lerpAngle 3.1 (- 3.0) 0.2 < 3.1 + 0.3"
    "3.1 < lerpAngle 3.1 (- 3.0) 0.15" "lerpAngle 3.1 (- 3.0) 0.15 < 3.1 + 0.3"
    using small_step[OF d, of "0.2" "3.1"] small_step[OF d, of "0.15" "3.1"]
    by (simp_all add: lerpAngle_def)
  show ?thesis
    using normalizedDiff_range[of c t] normalizedDiff_cong[of c t] normalizedDiff_shortest[of c t]
      example_diff d s
    by (simp add: lerpAngle_def)
qed

section \<open>Dwell before lock\<close>










lemma sqrt_more: "sqrt 400 = 20" "sqrt 100 = 10" "sqrt (4 / 25) = 2 / 5"
  by (rule real_sqrt_unique; simp add: power2_eq_square)+

lemma hovering_venus: "hovering ''venus'' (venusScene 20 [] True False overVenus, Map.empty, t)"
  by (simp add: hovering_def venusScene_def grabbedOrbId_def truthy_def getClosestOrbForHand_def
      considerOrb_def venus_def topCamera_def overVenus_def orbPosOf_def Object_values_def
      screenDistTo_def distanceTo_def outsideThreshold_def selectionThreshold_def
      cappedThreshold_def orDefault_def sqrt_more Let_def)



section \<open>Acquisition and release thresholds\<close>





lemma venus_fields: "active venus" "orbId venus = ''venus''"
  "orDefault (planetSize venus) dflt = 0.45" "orbPosOf Map.empty venus = \<lparr>px = 3.5, py = 0, pz = 0\<rparr>"
  by (simp_all add: venus_def orDefault_def orbPosOf_def)










section \<open>Loss of tracking during a grab\<close>










section \<open>Target radius of a grabbed object\<close>

lemma updatePlanetPosition_target:
  "targetOrbitRadius (updatePlanetPosition g orb delta refs) = targetOrbitRadius refs"
  by (simp add: updatePlanetPosition_def Let_def)

lemma grabbedTargets_radius:
  "targetOrbitRadius (grabbedTargets DepthMapped p refs) = depthTargetRadius (pz (handPosition_prop p))"
  "targetOrbitRadius (grabbedTargets Raycast p refs) =
     clampedRadius (sqrt (px (raycastOrbitalPlane (sceneCamera p) ((px (handPosition_prop p) - 0.5) * 2) ((py (handPosition_prop p) - 0.5) * 2))
        * px (raycastOrbitalPlane (sceneCamera p) ((px (handPosition_prop p) - 0.5) * 2) ((py (handPosition_prop p) - 0.5) * 2))
      + pz (raycastOrbitalPlane (sceneCamera p) ((px (handPosition_prop p) - 0.5) * 2) ((py (handPosition_prop p) - 0.5) * 2))
        * pz (raycastOrbitalPlane (sceneCamera p) ((px (handPosition_prop p) - 0.5) * 2) ((py (handPosition_prop p) - 0.5) * 2))))"
  by (simp_all add: grabbedTargets_def Let_def)

lemma frame_target:
  assumes "grabbedOrbId (grabbedOrbs p) = Some (orbId orb)" "cameraMode p \<noteq> ModeCamera"
  shows "targetOrbitRadius (fst (soundOrbFrame v p lk orb pid True delta refs))
    = targetOrbitRadius (grabbedTargets v p refs)"
  using assms
  by (cases v) (simp_all add: soundOrbFrame_def Let_def updatePlanetPosition_target grabDetection_def grabbedTargets_def)

lemma clamped_in_range: "MIN_ORBIT_RADIUS \<le> clampedRadius d \<and> clampedRadius d \<le> MAX_ORBIT_RADIUS"
  by (simp add: clampedRadius_def MIN_ORBIT_RADIUS_def MAX_ORBIT_RADIUS_def)

lemma raycast_target_in_range:
  assumes "grabbedOrbId (grabbedOrbs p) = Some (orbId orb)" "cameraMode p \<noteq> ModeCamera"
  shows "MIN_ORBIT_RADIUS
           \<le> targetOrbitRadius (fst (soundOrbFrame Raycast p lk orb pid True delta refs))
       \<and> targetOrbitRadius (fst (soundOrbFrame Raycast p lk orb pid True delta refs))
           \<le> MAX_ORBIT_RADIUS"
  using clamped_in_range by (simp add: frame_target[OF assms] grabbedTargets_radius)

text \<open>
  C5. In the SoundOrb that runs, the target radius of a grabbed object stays within
  [MIN, MAX], but the cursor depth does not set it, against the component's own header
  (hand depth controls distance from Sun). With venus grabbed and the cursor at
  (0.75, 0.5), whose ray meets the orbital plane 10 units from the centre, depth 0 gives
  the target radius 10 where the claim asks for the minimum 2, and depth 1 gives 10 again
  where the claim asks for the maximum 12.
\<close>

theorem target_radius_ignores_depth:
  "targetOrbitRadius (fst (soundOrbFrame Raycast
       (venusScene 20 grabbedVenus True True \<lparr>px = 0.75, py = 0.5, pz = 0\<rparr>)
       lockedOnVenus venus ''player_0'' True 0.016 (initialOrbRefs venus))) = 10
   \<and> 10 \<noteq> MIN_ORBIT_RADIUS
   \<and> targetOrbitRadius (fst (soundOrbFrame Raycast
       (venusScene 20 grabbedVenus True True \<lparr>px = 0.75, py = 0.5, pz = 1\<rparr>)
       lockedOnVenus venus ''player_0'' True 0.016 (initialOrbRefs venus))) = 10
   \<and> 10 \<noteq> MAX_ORBIT_RADIUS"
proof -
  have g: "grabbedOrbId (grabbedOrbs (venusScene 20 grabbedVenus True True c)) = Some (orbId venus)"
    "cameraMode (venusScene 20 grabbedVenus True True c) \<noteq> ModeCamera" for c
    by (simp_all add: venusScene_def grabbedVenus_def grabbedOrbId_def venus_fields)
  show ?thesis
    by (simp add: frame_target[OF g] grabbedTargets_radius)
      (simp add: venusScene_def clampedRadius_def topCamera_def
        MIN_ORBIT_RADIUS_def MAX_ORBIT_RADIUS_def sqrt_more)
qed

section \<open>Exclusive grabs\<close>

lemma considerOrb_excluded:
  "fst acc \<notin> Some ` set excl \<Longrightarrow> fst (considerOrb cam vis hp excl orb acc) \<notin> Some ` set excl"
  by (auto simp add: considerOrb_def Let_def)

lemma fold_considerOrb_excluded:
  "fst acc \<notin> Some ` set excl \<Longrightarrow>
   fst (fold (considerOrb cam vis hp excl) os acc) \<notin> Some ` set excl"
  by (induction os arbitrary: acc) (simp_all add: considerOrb_excluded)

lemma closest_not_excluded:
  "getClosestOrbForHand cam vis os hp excl \<notin> Some ` set excl"
  unfolding getClosestOrbForHand_def by (rule fold_considerOrb_excluded) simp

lemma fold_considerOrb_all_excluded:
  "list_all (\<lambda>orb. orbId orb \<in> set excl) os \<Longrightarrow>
   fold (considerOrb cam vis hp excl) os acc = acc"
  by (induction os arbitrary: acc) (simp_all add: considerOrb_def)

lemma closest_all_excluded:
  "list_all (\<lambda>orb. orbId orb \<in> set excl) os \<Longrightarrow> getClosestOrbForHand cam vis os hp excl = None"
  by (simp add: getClosestOrbForHand_def fold_considerOrb_all_excluded)

lemma sceneOrbCalls_player:
  "SetGrabbedOrbId v pid \<in> set (sceneOrbCalls f) \<Longrightarrow> pid = ''player_0''"
  by (cases f) (auto simp add: sceneOrbCalls_def soundOrbFrame_def grabDetection_def Let_def split: if_splits)

lemma playerKeys_set:
  "playerKeys g \<Longrightarrow> playerKeys (setGrabbedOrbId v ''player_0'' g)"
proof (cases v)
  case None
  assume "playerKeys g"
  then have "distinct (map fst (AList.delete ''player_0'' g))"
    "set (map fst (AList.delete ''player_0'' g)) \<subseteq> {''player_0''}"
    unfolding playerKeys_def by (auto simp add: AList.delete_keys distinct_removeAll)
  with None show ?thesis by (simp add: playerKeys_def setGrabbedOrbId_def)
next
  case (Some i)
  assume "playerKeys g"
  then have "distinct (map fst (AList.update ''player_0'' i g))"
    "set (map fst (AList.update ''player_0'' i g)) \<subseteq> {''player_0''}"
    unfolding playerKeys_def by (auto simp add: AList.distinct_update AList.update_keys)
  with Some show ?thesis by (simp add: playerKeys_def setGrabbedOrbId_def Object_set_player_0)
qed

lemma applyCall_keys:
  "playerKeys (worldGrabbed w) \<Longrightarrow> (\<And>v pid. c = SetGrabbedOrbId v pid \<Longrightarrow> pid = ''player_0'') \<Longrightarrow>
   playerKeys (worldGrabbed (applyCall c w))"
  by (cases c) (simp_all add: applyCall_def playerKeys_set)

lemma applyCalls_keys:
  "playerKeys (worldGrabbed w) \<Longrightarrow> (\<And>v pid. SetGrabbedOrbId v pid \<in> set cs \<Longrightarrow> pid = ''player_0'') \<Longrightarrow>
   playerKeys (worldGrabbed (applyCalls cs w))"
proof (induction cs arbitrary: w)
  case Nil
  then show ?case by (simp add: applyCalls_def)
next
  case (Cons c cs)
  have "playerKeys (worldGrabbed (applyCall c w))"
    using Cons.prems by (intro applyCall_keys) auto
  then have "playerKeys (worldGrabbed (applyCalls cs (applyCall c w)))"
    using Cons.prems(2) by (intro Cons.IH) auto
  then show ?case by (simp add: applyCalls_def)
qed

lemma runOrbFrames_keys:
  "playerKeys (worldGrabbed w) \<Longrightarrow> playerKeys (worldGrabbed (runOrbFrames frames w))"
proof (induction frames arbitrary: w)
  case Nil
  then show ?case by (simp add: runOrbFrames_def)
next
  case (Cons f frames)
  have "playerKeys (worldGrabbed (applyCalls (sceneOrbCalls f) w))"
    using Cons.prems sceneOrbCalls_player by (intro applyCalls_keys) simp_all
  then have "playerKeys (worldGrabbed (runOrbFrames frames (applyCalls (sceneOrbCalls f) w)))"
    by (rule Cons.IH)
  then show ?case by (simp add: runOrbFrames_def)
qed

lemma playerKeys_values: "playerKeys g \<Longrightarrow> distinct (Object_values g)"
proof -
  assume k: "playerKeys g"
  then have "length (map fst g) \<le> 1"
    unfolding playerKeys_def
    by (metis card_insert_if card.empty distinct_card card_mono finite.emptyI finite.insertI
        empty_iff One_nat_def)
  then have "length g \<le> 1" by simp
  then show ?thesis by (cases g) (auto simp add: Object_values_def)
qed

text \<open>
  C7. Whatever orb frames SpaceScene runs from the start of the session, no orb id is held
  in the grabbed map by two players; the candidate finder, given the grabbed ids as its
  exclusion list, never returns one of them; and where every orb in reach is excluded it
  returns null.
\<close>

theorem exclusivity:
  "distinct (Object_values (worldGrabbed (runOrbFrames frames (blankWorld os))))
   \<and> getClosestOrbForHand cam vis os hp
        (Object_values (worldGrabbed (runOrbFrames frames (blankWorld os))))
       \<notin> Some ` set (Object_values (worldGrabbed (runOrbFrames frames (blankWorld os))))
   \<and> (list_all (\<lambda>orb. orbId orb \<in> set excl) os' \<longrightarrow>
        getClosestOrbForHand cam vis os' hp excl = None)"
proof -
  have "playerKeys (worldGrabbed (blankWorld os))" by (simp add: playerKeys_def blankWorld_def)
  then have "playerKeys (worldGrabbed (runOrbFrames frames (blankWorld os)))"
    by (rule runOrbFrames_keys)
  then show ?thesis
    using closest_not_excluded closest_all_excluded by (simp add: playerKeys_values)
qed

lemma grabVenus_world:
  "worldGrabbed (runOrbFrames [grabVenusFrame] (blankWorld [venus])) = grabbedVenus"
  by (simp add: runOrbFrames_def grabVenusFrame_def sceneOrbCalls_def soundOrbFrame_def grabDetection_def
      venusScene_def grabbedOrbId_def lockedOnVenus_def venus_fields applyCalls_def applyCall_def
      setGrabbedOrbId_def Object_set_player_0 blankWorld_def grabbedVenus_def Let_def)

theorem exclusivity_witness:
  "worldGrabbed (runOrbFrames [grabVenusFrame] (blankWorld [venus])) = grabbedVenus
   \<and> list_all (\<lambda>orb. orbId orb \<in> set (Object_values grabbedVenus)) [venus]
   \<and> getClosestOrbForHand (topCamera 20) Map.empty [venus] overVenus (Object_values grabbedVenus) = None
   \<and> getClosestOrbForHand (topCamera 20) Map.empty [venus] overVenus [] = Some ''venus''"
proof -
  have a: "list_all (\<lambda>orb. orbId orb \<in> set (Object_values grabbedVenus)) [venus]"
    by (simp add: Object_values_def grabbedVenus_def venus_fields)
  have b: "getClosestOrbForHand (topCamera 20) Map.empty [venus] overVenus [] = Some ''venus''"
    using hovering_venus[of 0] by (simp add: hovering_def venusScene_def Object_values_def)
  show ?thesis
    using exclusivity[of "[grabVenusFrame]" "[venus]" "topCamera 20" Map.empty overVenus
        "Object_values grabbedVenus" "[venus]"] a b grabVenus_world
    by simp
qed

end
